theory Spec2Isabelle
  imports Complex_Main "HOL-Library.Multiset"
begin

section \<open>Numbers and typed arrays\<close>

text \<open>
  The accumulation code of \<^verbatim>\<open>browser/src/App.tsx\<close> works on \<^verbatim>\<open>Float32Array\<close>s and on
  JavaScript numbers. A number is modelled as one of the three special values or a finite
  value. Finite values are exact rationals: the rounding of binary32 and binary64
  arithmetic and the sign of zero are not part of the model, so the theorems below speak
  about which operations are applied, in which order and to which elements, and about
  the special values, and not about rounding error.
\<close>

datatype jsnum = NaN | PInf | NInf | Fin rat

text \<open>The operator \<^verbatim>\<open>+\<close> on two numbers.\<close>

fun jadd :: "jsnum \<Rightarrow> jsnum \<Rightarrow> jsnum" where
  "jadd NaN y = NaN"
| "jadd x NaN = NaN"
| "jadd PInf NInf = NaN"
| "jadd NInf PInf = NaN"
| "jadd PInf y = PInf"
| "jadd x PInf = PInf"
| "jadd NInf y = NInf"
| "jadd x NInf = NInf"
| "jadd (Fin a) (Fin b) = Fin (a + b)"

text \<open>The operator \<^verbatim>\<open>/\<close>: a finite value divided by zero is an infinity or, for \<^verbatim>\<open>0 / 0\<close>, NaN.\<close>

fun jdiv :: "jsnum \<Rightarrow> jsnum \<Rightarrow> jsnum" where
  "jdiv NaN y = NaN"
| "jdiv x NaN = NaN"
| "jdiv (Fin a) (Fin b) =
     (if b = 0 then (if a = 0 then NaN else if 0 < a then PInf else NInf)
      else Fin (a / b))"
| "jdiv (Fin a) PInf = Fin 0"
| "jdiv (Fin a) NInf = Fin 0"
| "jdiv PInf (Fin b) = (if 0 \<le> b then PInf else NInf)"
| "jdiv NInf (Fin b) = (if 0 \<le> b then NInf else PInf)"
| "jdiv PInf PInf = NaN"
| "jdiv PInf NInf = NaN"
| "jdiv NInf PInf = NaN"
| "jdiv NInf NInf = NaN"

text \<open>The operator \<^verbatim>\<open>*\<close>: an infinity times zero is NaN.\<close>

fun jmul :: "jsnum \<Rightarrow> jsnum \<Rightarrow> jsnum" where
  "jmul NaN y = NaN"
| "jmul x NaN = NaN"
| "jmul (Fin a) (Fin b) = Fin (a * b)"
| "jmul (Fin a) PInf = (if a = 0 then NaN else if 0 < a then PInf else NInf)"
| "jmul (Fin a) NInf = (if a = 0 then NaN else if 0 < a then NInf else PInf)"
| "jmul PInf (Fin b) = (if b = 0 then NaN else if 0 < b then PInf else NInf)"
| "jmul NInf (Fin b) = (if b = 0 then NaN else if 0 < b then NInf else PInf)"
| "jmul PInf PInf = PInf"
| "jmul PInf NInf = NInf"
| "jmul NInf PInf = NInf"
| "jmul NInf NInf = PInf"

text \<open>\<^verbatim>\<open>Math.floor\<close> keeps NaN and the infinities.\<close>

fun Math_floor :: "jsnum \<Rightarrow> jsnum" where
  "Math_floor (Fin a) = Fin (of_int \<lfloor>a\<rfloor>)"
| "Math_floor x = x"

text \<open>
  Reading \<^verbatim>\<open>a[i]\<close> from a typed array gives \<^verbatim>\<open>undefined\<close> (here \<open>None\<close>) when \<open>i\<close> is not
  an index of \<open>a\<close>; an arithmetic operator turns \<^verbatim>\<open>undefined\<close> into NaN.
\<close>

definition element :: "jsnum list \<Rightarrow> nat \<Rightarrow> jsnum option" where
  "element a i = (if i < length a then Some (a ! i) else None)"

fun ToNumber :: "jsnum option \<Rightarrow> jsnum" where
  "ToNumber None = NaN"
| "ToNumber (Some x) = x"

text \<open>
  The conversion a \<^verbatim>\<open>Uint8ClampedArray\<close> applies to every element it stores: NaN becomes
  0, the value is clamped to the range from 0 to 255 and rounded to the nearest integer,
  a tie going to the even neighbour.
\<close>

fun ToUint8Clamp :: "jsnum \<Rightarrow> int" where
  "ToUint8Clamp NaN = 0"
| "ToUint8Clamp PInf = 255"
| "ToUint8Clamp NInf = 0"
| "ToUint8Clamp (Fin a) =
     (if a \<le> 0 then 0
      else if 255 \<le> a then 255
      else let f = \<lfloor>a\<rfloor> in
        if of_int f + 1 / 2 < a then f + 1
        else if a < of_int f + 1 / 2 then f
        else if even f then f else f + 1)"

definition Uint8ClampedArray :: "jsnum list \<Rightarrow> int list" where
  "Uint8ClampedArray xs = map ToUint8Clamp xs"

section \<open>The accumulation functions\<close>

text \<open>
  \<^verbatim>\<open>function add(a, b) { return a.map((_, i) => a[i] + b[i]); }\<close>

  The result has one element for every index of \<open>a\<close>.
\<close>

definition add :: "jsnum list \<Rightarrow> jsnum list \<Rightarrow> jsnum list" where
  "add a b = map (\<lambda>i. jadd (ToNumber (element a i)) (ToNumber (element b i))) [0..<length a]"

text \<open>The value of the callback of \<^verbatim>\<open>add\<close> at index \<open>i\<close>.\<close>

definition sum_at :: "jsnum list \<Rightarrow> jsnum list \<Rightarrow> nat \<Rightarrow> jsnum" where
  "sum_at a b i = jadd (ToNumber (element a i)) (ToNumber (element b i))"

text \<open>
  \<^verbatim>\<open>function toImageBuffer(buffer, numSamples) {
    return new Uint8ClampedArray(buffer.map((x) => Math.floor((x / numSamples) * 255))); }\<close>
\<close>

definition toImageBuffer :: "jsnum list \<Rightarrow> jsnum \<Rightarrow> int list" where
  "toImageBuffer buffer numSamples =
     Uint8ClampedArray (map (\<lambda>x. Math_floor (jmul (jdiv x numSamples) (Fin 255))) buffer)"

text \<open>The byte \<^verbatim>\<open>toImageBuffer\<close> stores for an element \<open>x\<close>.\<close>

definition display_byte :: "jsnum \<Rightarrow> jsnum \<Rightarrow> int" where
  "display_byte x numSamples = ToUint8Clamp (Math_floor (jmul (jdiv x numSamples) (Fin 255)))"

text \<open>
  \<^verbatim>\<open>renderImage\<close> of \<^verbatim>\<open>browser/src/render.ts\<close>. The sample source \<^verbatim>\<open>create_spectrum_image\<close>
  is the compiled ray tracer, which is not among the sources; it is a parameter here.
\<close>

definition renderImage :: "(nat \<Rightarrow> nat \<Rightarrow> jsnum list) \<Rightarrow> nat \<Rightarrow> nat \<Rightarrow> int list" where
  "renderImage create_spectrum_image width height =
     (let floatImage = create_spectrum_image width height
      in Uint8ClampedArray (map (\<lambda>x. Math_floor (jmul x (Fin 255))) floatImage))"

section \<open>The component that accumulates on mount\<close>

text \<open>
  The variant of \<^verbatim>\<open>App\<close> that calls the sample source itself keeps the running sum in
  the ref \<^verbatim>\<open>buffer\<close> and the number of samples in the React state \<^verbatim>\<open>numSamples\<close>.
  The canvas is \<open>None\<close> when \<^verbatim>\<open>canvasRef.current\<close> or its 2d context is null, and holds
  the bytes last put on it otherwise.
\<close>

datatype State = Initializing | Rendering | Done

record app =
  state :: State
  numSamples :: jsnum
  buffer :: "jsnum list"
  canvas :: "int list option"

definition width :: nat where
  "width = 1280"

definition height :: nat where
  "height = 720"

text \<open>
  The values of the first render: \<^verbatim>\<open>useState("initializing")\<close>, \<^verbatim>\<open>useState(0)\<close> and
  \<^verbatim>\<open>useRef(new Float32Array(width * height * 4))\<close>, under a canvas with nothing drawn yet.
\<close>

definition initial_app :: app where
  "initial_app =
     \<lparr>state = Initializing, numSamples = Fin 0,
      buffer = replicate (width * height * 4) (Fin 0),
      canvas = Some (replicate (width * height * 4) 0)\<rparr>"

text \<open>
  The two statements of the effect that take a sample into the accumulation state:
  \<^verbatim>\<open>setNumSamples((n) => n + 1); buffer.current = add(buffer.current, newSamples);\<close>
\<close>

definition merge :: "jsnum list \<Rightarrow> app \<Rightarrow> app" where
  "merge newSamples s =
     s\<lparr>numSamples := jadd (numSamples s) (Fin 1), buffer := add (buffer s) newSamples\<rparr>"

text \<open>
  \<^verbatim>\<open>imageData.data.set(data)\<close> copies \<open>data\<close> to the start of the target and throws a
  \<^verbatim>\<open>RangeError\<close> when \<open>data\<close> is longer than the target.
\<close>

datatype error = RangeError

definition TypedArray_set :: "int list \<Rightarrow> int list \<Rightarrow> error + int list" where
  "TypedArray_set target source =
     (if length target < length source then Inl RangeError
      else Inr (source @ drop (length source) target))"

text \<open>
  The effect of the component, run once after the first render. The state setters only
  queue their updates, which are in the state returned here; the \<^verbatim>\<open>numSamples\<close> that the
  effect passes to \<^verbatim>\<open>toImageBuffer\<close> is the constant of the render that created the effect,
  that is, the value in the state the effect starts from.
\<close>

definition effect :: "(nat \<Rightarrow> nat \<Rightarrow> jsnum list) \<Rightarrow> app \<Rightarrow> error + app" where
  "effect create_spectrum_image s =
     (let newSamples = create_spectrum_image width height;
          s1 = merge newSamples (s\<lparr>state := Rendering\<rparr>)
      in case canvas s of
           None \<Rightarrow> Inr s1
         | Some pixels \<Rightarrow>
             (let imageData = replicate (width * height * 4) 0;
                  data = toImageBuffer (buffer s1) (numSamples s)
              in case TypedArray_set imageData data of
                   Inl e \<Rightarrow> Inl e
                 | Inr shown \<Rightarrow> Inr (s1\<lparr>canvas := Some shown, state := Done\<rparr>)))"

section \<open>Typed arrays in a store\<close>

text \<open>
  To say what \<^verbatim>\<open>add\<close> does to its arguments, arrays live in a store and are passed by
  reference. A reference is an index into the store; allocation appends a zero-filled
  array.
\<close>

type_synonym ref = nat

type_synonym store = "jsnum list list"

definition alloc :: "nat \<Rightarrow> store \<Rightarrow> store \<times> ref" where
  "alloc len h = (h @ [replicate len (Fin 0)], length h)"

definition load :: "store \<Rightarrow> ref \<Rightarrow> nat \<Rightarrow> jsnum option" where
  "load h r i = element (h ! r) i"

definition store_at :: "ref \<Rightarrow> nat \<Rightarrow> jsnum \<Rightarrow> store \<Rightarrow> store" where
  "store_at r i v h = h[r := (h ! r)[i := v]]"

text \<open>
  \<^verbatim>\<open>obj.map(callback)\<close> on a typed array: a new array of the length of \<open>obj\<close> is created,
  then for every index in ascending order the callback is called on the element of \<open>obj\<close>, the
  index and the store as it is by then, and its result is written to the new array.
\<close>

definition TypedArray_map ::
    "(store \<Rightarrow> jsnum \<Rightarrow> nat \<Rightarrow> jsnum) \<Rightarrow> ref \<Rightarrow> store \<Rightarrow> store \<times> ref" where
  "TypedArray_map callback obj h =
     (let len = length (h ! obj);
          (h1, A) = alloc len h
      in (fold (\<lambda>k hk. store_at A k (callback hk (ToNumber (load hk obj k)) k) hk) [0..<len] h1, A))"

text \<open>\<^verbatim>\<open>add\<close> on references: the callback reads \<^verbatim>\<open>a[i]\<close> and \<^verbatim>\<open>b[i]\<close> from the store.\<close>

definition add_ref :: "ref \<Rightarrow> ref \<Rightarrow> store \<Rightarrow> store \<times> ref" where
  "add_ref a b h =
     TypedArray_map (\<lambda>hk x i. jadd (ToNumber (load hk a i)) (ToNumber (load hk b i))) a h"

section \<open>The worker and its caller\<close>

text \<open>
  \<^verbatim>\<open>browser/src/worker.ts\<close>: the handler of the worker takes the pair of the request,
  renders and posts one message. The value is the list of the messages it posts.
\<close>

definition worker_onmessage ::
    "(nat \<Rightarrow> nat \<Rightarrow> jsnum list) \<Rightarrow> nat \<times> nat \<Rightarrow> int list list" where
  "worker_onmessage create_spectrum_image data =
     (case data of (w, h) \<Rightarrow>
        (let image = renderImage create_spectrum_image w h in [image]))"

text \<open>
  The side of the caller. A worker object holds the requests posted to it and its
  listeners, each under the name of the event it was added for. The only listener of the
  sources is \<^verbatim>\<open>(event) => { console.log(event); }\<close>.
\<close>

datatype event = MessageEvent "int list" | ErrorEvent

datatype event_name = message_name | error_name

fun name_of :: "event \<Rightarrow> event_name" where
  "name_of (MessageEvent d) = message_name"
| "name_of ErrorEvent = error_name"

datatype listener = log_event

record worker =
  posted :: "(nat \<times> nat) list"
  listeners :: "(event_name \<times> listener) list"

record main = app +
  console :: "event list"
  workers :: "worker list"

fun call_listener :: "listener \<Rightarrow> event \<Rightarrow> main \<Rightarrow> main" where
  "call_listener log_event ev m = m\<lparr>console := console m @ [ev]\<rparr>"

text \<open>
  \<^verbatim>\<open>function callWorker(width, height) {
    const worker = new Worker();
    worker.postMessage([width, height]);
    worker.addEventListener("message", (event) => { console.log(event); }); }\<close>

  It returns nothing.
\<close>

definition callWorker :: "nat \<Rightarrow> nat \<Rightarrow> main \<Rightarrow> main" where
  "callWorker w h m =
     m\<lparr>workers := workers m @ [\<lparr>posted = [(w, h)], listeners = [(message_name, log_event)]\<rparr>]\<rparr>"

text \<open>An event fired at worker object \<open>i\<close> runs the listeners added under its name.\<close>

definition dispatchEvent :: "nat \<Rightarrow> event \<Rightarrow> main \<Rightarrow> main" where
  "dispatchEvent i ev m =
     fold (\<lambda>l mk. if fst l = name_of ev then call_listener (snd l) ev mk else mk)
       (listeners (workers m ! i)) m"

text \<open>
  What becomes of a request: the worker runs its handler to the end, or it throws, which
  fires an error event at the worker object, or its context is destroyed, which fires
  nothing.
\<close>

datatype fate = Completes | Throws | Destroyed

definition events_of ::
    "(nat \<Rightarrow> nat \<Rightarrow> jsnum list) \<Rightarrow> fate \<Rightarrow> nat \<times> nat \<Rightarrow> event list" where
  "events_of create_spectrum_image f data =
     (case f of
        Completes \<Rightarrow> map MessageEvent (worker_onmessage create_spectrum_image data)
      | Throws \<Rightarrow> [ErrorEvent]
      | Destroyed \<Rightarrow> [])"

text \<open>
  One request from the call of \<^verbatim>\<open>callWorker\<close> to the delivery of everything its worker
  fires, for every request posted to that worker.
\<close>

definition request :: "(nat \<Rightarrow> nat \<Rightarrow> jsnum list) \<Rightarrow> fate \<Rightarrow> nat \<Rightarrow> nat \<Rightarrow> main \<Rightarrow> main" where
  "request create_spectrum_image f w h m =
     (let i = length (workers m);
          m1 = callWorker w h m
      in fold (dispatchEvent i)
           (concat (map (events_of create_spectrum_image f) (posted (workers m1 ! i)))) m1)"

text \<open>
  The effect of the component that uses the worker:
  \<^verbatim>\<open>setState("rendering"); callWorker(width, height);\<close>
\<close>

definition worker_effect :: "main \<Rightarrow> main" where
  "worker_effect m = callWorker width height (m\<lparr>state := Rendering\<rparr>)"

definition initial_main :: main where
  "initial_main =
     \<lparr>state = Initializing, numSamples = Fin 0,
      buffer = replicate (width * height * 4) (Fin 0),
      canvas = Some (replicate (width * height * 4) 0),
      console = [], workers = []\<rparr>"

section \<open>The wording of the specification\<close>

text \<open>
  The specification describes a display byte as
  \<^verbatim>\<open>clamp(round(sum[i] / sampleCount * 255), 0, 255)\<close> with rounding to the nearest integer,
  a half going up.
\<close>

definition clamp :: "int \<Rightarrow> int \<Rightarrow> int \<Rightarrow> int" where
  "clamp x lo hi = max lo (min hi x)"



text \<open>What the code computes instead rounds down.\<close>

definition floor_byte :: "rat \<Rightarrow> rat \<Rightarrow> int" where
  "floor_byte sum_i sampleCount = clamp \<lfloor>sum_i / sampleCount * 255\<rfloor> 0 255"

section \<open>Facts about the numbers and the typed arrays\<close>

lemma ToUint8Clamp_of_int: "ToUint8Clamp (Fin (of_int k)) = clamp k 0 255"
  by (auto simp: clamp_def Let_def)

lemma ToUint8Clamp_range: "0 \<le> ToUint8Clamp x \<and> ToUint8Clamp x \<le> 255"
  by (cases x) (auto simp: Let_def)

lemma jadd_commute: "jadd x y = jadd y x"
  by (cases x; cases y) simp_all

lemma jadd_assoc: "jadd (jadd x y) z = jadd x (jadd y z)"
  by (cases x; cases y; cases z) simp_all

lemma jadd_right_commute: "jadd (jadd x y) z = jadd (jadd x z) y"
  by (metis jadd_assoc jadd_commute)

lemma jadd_NaN_right: "jadd x NaN = NaN"
  by (cases x) simp_all

lemma length_add: "length (add a b) = length a"
  by (simp add: add_def)

lemma nth_add:
  "i < length a \<Longrightarrow> add a b ! i = (if i < length b then jadd (a ! i) (b ! i) else NaN)"
  by (cases "a ! i") (auto simp: add_def element_def)

lemma add_sum_at: "add a b = map (sum_at a b) [0..<length a]"
  by (simp add: add_def sum_at_def)

lemma add_replicate: "add (replicate n x) (replicate n y) = replicate n (jadd x y)"
  by (rule nth_equalityI) (simp_all add: length_add nth_add)

lemma length_toImageBuffer: "length (toImageBuffer buf c) = length buf"
  by (simp add: toImageBuffer_def Uint8ClampedArray_def)


lemma toImageBuffer_replicate:
  "toImageBuffer (replicate n x) c = replicate n (display_byte x c)"
  by (simp add: toImageBuffer_def Uint8ClampedArray_def display_byte_def)

text \<open>
  After \<^verbatim>\<open>Math.floor\<close> the value is an integer, so the rounding of the clamped array has
  nothing left to round: only its clamping acts.
\<close>

lemma display_byte_Fin: "c \<noteq> 0 \<Longrightarrow> display_byte (Fin a) (Fin c) = floor_byte a c"
  by (simp add: display_byte_def floor_byte_def ToUint8Clamp_of_int del: ToUint8Clamp.simps)


lemma floor_byte_half: "floor_byte (1 / 2) 1 = 127"
  by code_simp

lemma display_byte_half_zero: "display_byte (Fin (1 / 2)) (Fin 0) = 255"
  by (simp add: display_byte_def)

lemma display_byte_half_one: "display_byte (Fin (1 / 2)) (Fin 1) = 127"
  by (simp add: display_byte_Fin floor_byte_half)

lemma TypedArray_set_same_length:
  "length source = length target \<Longrightarrow> TypedArray_set target source = Inr source"
  by (simp add: TypedArray_set_def)

section \<open>Merging samples\<close>







text \<open>
  In the exact arithmetic of this model the order of the merges does not matter. (What
  binary32 rounding does to sums taken in different orders is outside the model.)
\<close>

lemma add_right_commute: "add (add a b) c = add (add a c) b"
  by (rule nth_equalityI)
     (auto simp: length_add nth_add jadd_right_commute jadd_NaN_right)

lemma merge_commute: "merge x (merge y s) = merge y (merge x s)"
  by (simp add: merge_def add_right_commute)

lemma fold_merge_mset:
  assumes "mset xs = mset ys"
  shows "fold merge xs s = fold merge ys s"
proof -
  have "merge x \<circ> merge y = merge y \<circ> merge x" for x y
    by (rule ext) (simp add: merge_commute)
  then have "fold merge xs = fold merge ys"
    using assms by (intro fold_multiset_equiv) auto
  then show ?thesis by simp
qed

section \<open>The display image\<close>




text \<open>
  Claim C3, as the code has it. With a sample count of zero nothing fails: the division
  gives an infinity or NaN and the conversion to bytes turns that into a byte. The image
  has 255 where the element of the sum is above zero and 0 everywhere else.
\<close>

theorem toImageBuffer_zero_samples:
  "toImageBuffer acc (Fin 0) =
     map (\<lambda>x. case x of Fin a \<Rightarrow> (if 0 < a then 255 else 0) | PInf \<Rightarrow> 255 | NInf \<Rightarrow> 0 | NaN \<Rightarrow> 0)
       acc"
  unfolding toImageBuffer_def Uint8ClampedArray_def map_map
  by (rule map_cong) (auto split: jsnum.splits)

theorem toImageBuffer_zero_samples_image:
  "toImageBuffer [Fin 1, Fin 0, Fin (- 1)] (Fin 0) = [255, 0, 0]"
  by (simp add: toImageBuffer_def Uint8ClampedArray_def)

text \<open>\<^verbatim>\<open>renderImage\<close> rounds down in the same way, with no division.\<close>

lemma nth_renderImage:
  assumes "i < length (create_spectrum_image w h)"
  shows "renderImage create_spectrum_image w h ! i =
           ToUint8Clamp (Math_floor (jmul (create_spectrum_image w h ! i) (Fin 255)))"
  using assms by (simp add: renderImage_def Uint8ClampedArray_def)

text \<open>
  Claim C10. \<^verbatim>\<open>toImageBuffer\<close> and \<^verbatim>\<open>renderImage\<close> have no failing branch. For every buffer
  and every number of samples, NaN, the infinities and zero among them, the image has the
  length of the buffer of floats it is made from and every byte is between 0 and 255.
\<close>

theorem image_bytes_in_range:
  "length (toImageBuffer buf c) = length buf
   \<and> (\<forall>b \<in> set (toImageBuffer buf c). 0 \<le> b \<and> b \<le> 255)
   \<and> length (renderImage create_spectrum_image w h) = length (create_spectrum_image w h)
   \<and> (\<forall>b \<in> set (renderImage create_spectrum_image w h). 0 \<le> b \<and> b \<le> 255)"
  using ToUint8Clamp_range
  by (auto simp: toImageBuffer_def renderImage_def Uint8ClampedArray_def
           simp del: ToUint8Clamp.simps)

theorem image_bytes_in_range_witness:
  "toImageBuffer [Fin 300, NaN, Fin (- 2), PInf, NInf, Fin 1] (Fin 0) = [255, 0, 0, 255, 0, 255]
   \<and> toImageBuffer [Fin 300, NaN, Fin (- 2), PInf, NInf, Fin 1] NaN = [0, 0, 0, 0, 0, 0]
   \<and> renderImage (\<lambda>w h. [Fin 2, NaN, Fin (1 / 2)]) 1 1 = [255, 0, 127]"
  using image_bytes_in_range [of "[Fin 300, NaN, Fin (- 2), PInf, NInf, Fin 1]" "Fin 0"
      "\<lambda>w h. [Fin 2, NaN, Fin (1 / 2)]" 1 1]
  by code_simp

section \<open>The arguments of add\<close>

lemma filled_update:
  assumes "k < len"
  shows "(map f [0..<k] @ replicate (len - k) z)[k := f k]
           = map f [0..<Suc k] @ replicate (len - Suc k) z"
proof -
  from assms have "len - k = Suc (len - Suc k)"
    by simp
  then show ?thesis
    by (simp add: list_update_append)
qed

text \<open>
  The loop of \<^verbatim>\<open>map\<close> after \<open>k\<close> rounds: the store it started from, followed by the new
  array with its first \<open>k\<close> elements written.
\<close>

lemma add_ref_loop:
  assumes "a < length h" and "b < length h" and "k \<le> len"
  shows "fold (\<lambda>k hk. store_at (length h) k
             (jadd (ToNumber (load hk a k)) (ToNumber (load hk b k))) hk) [0..<k]
           (h @ [replicate len (Fin 0)])
         = h @ [map (sum_at (h ! a) (h ! b)) [0..<k] @ replicate (len - k) (Fin 0)]"
  using assms(3)
proof (induction k)
  case 0
  then show ?case by simp
next
  case (Suc k)
  define filled
    where "filled = map (sum_at (h ! a) (h ! b)) [0..<k] @ replicate (len - k) (Fin 0)"
  from Suc.prems have k: "k < len" "k \<le> len"
    by simp_all
  have step: "store_at (length h) k
                (jadd (ToNumber (load (h @ [filled]) a k)) (ToNumber (load (h @ [filled]) b k)))
                (h @ [filled])
              = h @ [filled[k := sum_at (h ! a) (h ! b) k]]"
    using assms(1,2) by (simp add: store_at_def load_def nth_append sum_at_def)
  have "filled[k := sum_at (h ! a) (h ! b) k]
          = map (sum_at (h ! a) (h ! b)) [0..<Suc k] @ replicate (len - Suc k) (Fin 0)"
    unfolding filled_def by (rule filled_update [OF k(1)])
  with step Suc.IH [OF k(2)] show ?case
    by (simp add: filled_def)
qed

lemma add_ref_eq:
  assumes "a < length h" and "b < length h"
  shows "add_ref a b h = (h @ [add (h ! a) (h ! b)], length h)"
  using add_ref_loop [OF assms, of "length (h ! a)" "length (h ! a)"]
  by (simp add: add_ref_def TypedArray_map_def alloc_def add_sum_at)

text \<open>
  Claim C9. \<^verbatim>\<open>add\<close> called on two arrays of the store, which may be the same array,
  returns a reference that was not in the store before, to an array holding the sums.
  Every array that was in the store, the two arguments among them, holds afterwards what
  it held before.
\<close>

theorem add_ref_frame:
  assumes "a < length h" and "b < length h"
  shows "add_ref a b h = (h @ [add (h ! a) (h ! b)], length h)
       \<and> fst (add_ref a b h) ! a = h ! a
       \<and> fst (add_ref a b h) ! b = h ! b
       \<and> take (length h) (fst (add_ref a b h)) = h
       \<and> snd (add_ref a b h) \<noteq> a
       \<and> snd (add_ref a b h) \<noteq> b"
  using assms by (simp add: add_ref_eq nth_append)

theorem add_ref_frame_witness:
  "(0::nat) < length [[Fin 1, Fin 2], [Fin 10]] \<and> (1::nat) < length [[Fin 1, Fin 2], [Fin 10]]
   \<and> add_ref 0 1 [[Fin 1, Fin 2], [Fin 10]] = ([[Fin 1, Fin 2], [Fin 10], [Fin 11, NaN]], 2)"
  using add_ref_frame [of 0 "[[Fin 1, Fin 2], [Fin 10]]" 1]
  by (simp add: add_def element_def)

section \<open>What the effect shows\<close>

text \<open>
  With a canvas and a sum of the size of the image, the effect merges the new sample and
  then shows the image of the new sum under the number of samples of before the merge.
\<close>

lemma effect_shows:
  assumes "canvas s = Some pixels" and "length (buffer s) = width * height * 4"
  shows "effect create_spectrum_image s =
           Inr ((merge (create_spectrum_image width height) s)
             \<lparr>canvas := Some (toImageBuffer
                 (buffer (merge (create_spectrum_image width height) s)) (numSamples s)),
              state := Done\<rparr>)"
  using assms
  by (simp add: effect_def Let_def merge_def TypedArray_set_def length_toImageBuffer length_add)

text \<open>
  Claim C4 does not hold of the effect. On the first render, with a sample source that
  gives one half in every channel, the effect leaves a sum that holds one sample and a
  count of 1, and yet the canvas shows 255 in every byte: the image was taken from the new
  sum and the count 0 of the render. The sum and the count it leaves give 127 in every
  byte.
\<close>

theorem effect_shows_stale_count:
  "effect (\<lambda>w h. replicate (w * h * 4) (Fin (1 / 2))) initial_app =
     Inr \<lparr>state = Done, numSamples = Fin 1,
          buffer = replicate (width * height * 4) (Fin (1 / 2)),
          canvas = Some (replicate (width * height * 4) 255)\<rparr>
   \<and> toImageBuffer (replicate (width * height * 4) (Fin (1 / 2))) (Fin 1)
       = replicate (width * height * 4) 127"
  by (simp add: effect_def initial_app_def merge_def add_replicate toImageBuffer_replicate
        TypedArray_set_same_length display_byte_half_zero display_byte_half_one)

section \<open>Requests to the worker\<close>

lemma request_Completes:
  "request create_spectrum_image Completes w h m =
     (callWorker w h m)
       \<lparr>console := console m @ [MessageEvent (renderImage create_spectrum_image w h)]\<rparr>"
  by (simp add: request_def callWorker_def events_of_def worker_onmessage_def dispatchEvent_def)

lemma request_Throws: "request create_spectrum_image Throws w h m = callWorker w h m"
  by (simp add: request_def callWorker_def events_of_def dispatchEvent_def)

lemma request_Destroyed: "request create_spectrum_image Destroyed w h m = callWorker w h m"
  by (simp add: request_def callWorker_def events_of_def dispatchEvent_def)

text \<open>The effect of the component sends one request, for the whole image, and merges nothing.\<close>

lemma worker_effect_requests:
  "workers (worker_effect m) =
     workers m @ [\<lparr>posted = [(width, height)], listeners = [(message_name, log_event)]\<rparr>]
   \<and> numSamples (worker_effect m) = numSamples m
   \<and> buffer (worker_effect m) = buffer m"
  by (simp add: worker_effect_def callWorker_def)

text \<open>
  Claim C5, as the code has it. A worker that completes posts exactly one message, which
  holds the image of \<^verbatim>\<open>renderImage\<close>. The listener of the caller writes that one event to
  the console and does nothing else: the sum and the number of samples are what they were
  before the request, so the result is never merged.
\<close>

theorem request_completed_is_logged:
  "worker_onmessage create_spectrum_image (w, h) = [renderImage create_spectrum_image w h]
   \<and> console (request create_spectrum_image Completes w h m)
       = console m @ [MessageEvent (renderImage create_spectrum_image w h)]
   \<and> numSamples (request create_spectrum_image Completes w h m) = numSamples m
   \<and> buffer (request create_spectrum_image Completes w h m) = buffer m"
  by (simp add: request_Completes callWorker_def worker_onmessage_def)

text \<open>
  A request for an image of two pixels that completes: the number of samples is 0 as
  before, not one more, and the sum is the one of before.
\<close>

theorem request_completed_not_merged:
  "numSamples (request (\<lambda>w h. replicate (w * h * 4) (Fin 1)) Completes 2 1 initial_main) = Fin 0
   \<and> numSamples (request (\<lambda>w h. replicate (w * h * 4) (Fin 1)) Completes 2 1 initial_main)
       \<noteq> jadd (numSamples initial_main) (Fin 1)
   \<and> buffer (request (\<lambda>w h. replicate (w * h * 4) (Fin 1)) Completes 2 1 initial_main)
       = buffer initial_main"
  by (simp add: request_Completes callWorker_def initial_main_def)

text \<open>
  Claim C6, as the code has it. \<^verbatim>\<open>callWorker\<close> returns no handle and adds a listener for
  messages only. A request whose worker throws or is destroyed leaves the caller in
  exactly the state the call of \<^verbatim>\<open>callWorker\<close> left it in, so nothing records that the
  request is lost. Whatever becomes of the request, at most one event comes back from
  it, and the sum and the number of samples stay what they were.
\<close>

theorem request_lost_leaves_no_trace:
  "request create_spectrum_image Throws w h m = callWorker w h m
   \<and> request create_spectrum_image Destroyed w h m = callWorker w h m
   \<and> length (events_of create_spectrum_image f (w, h)) \<le> 1
   \<and> numSamples (request create_spectrum_image f w h m) = numSamples m
   \<and> buffer (request create_spectrum_image f w h m) = buffer m"
  by (cases f)
     (simp_all add: request_Completes request_Throws request_Destroyed callWorker_def
        events_of_def worker_onmessage_def)

text \<open>
  A request whose worker throws: the state of the caller is the state of a request still
  under way, and the console is empty.
\<close>

theorem request_thrown_is_unnoticed:
  "request (\<lambda>w h. replicate (w * h * 4) (Fin 1)) Throws 2 1 initial_main
     = callWorker 2 1 initial_main
   \<and> console (request (\<lambda>w h. replicate (w * h * 4) (Fin 1)) Throws 2 1 initial_main) = []"
  by (simp add: request_Throws callWorker_def initial_main_def)

end
